theory Spec2Isabelle
  imports Complex_Main "HOL-Library.Multiset"
begin

section \<open>VisionAi: the emotion history of the React front end\<close>

text \<open>
  The front end keeps its emotion samples in the state of the \<^verbatim>\<open>App\<close> component
  (\<^verbatim>\<open>emotionHistory\<close>, \<^verbatim>\<open>currentEmotion\<close>), draws them in \<^verbatim>\<open>EmotionChart\<close>,
  ranks one sample's scores in \<^verbatim>\<open>CameraPanel\<close> and exports the history in
  \<^verbatim>\<open>handleExportCSV\<close> and \<^verbatim>\<open>handleExportJSON\<close>. This theory embeds those
  functions and proves what they compute.

  Conventions of the embedding.
  \<^item> A JavaScript number that the code computes with (a score, a confidence) is a
    finite double, a \<^typ>\<open>real\<close>: every such number is decoded from a JSON response,
    so it is never NaN. A decimal literal denotes the double nearest to it. Every
    arithmetic operation returns its exact result rounded to the nearest double; a
    result that is not a finite number (an infinity, NaN) is \<^const>\<open>None\<close>. The two
    zeros of the format are one number here.
  \<^item> A timestamp is an \<^typ>\<open>int\<close> (milliseconds since the epoch, as \<^verbatim>\<open>Date.now()\<close>
    gives them), held in a double like every number; the difference of two timestamps
    is rounded as every result is.
  \<^item> A JavaScript object with numeric properties is an association list in the order
    of its own keys, which is the order \<^verbatim>\<open>Object.entries\<close> lists them in; reading
    a property that is absent gives \<^verbatim>\<open>undefined\<close>, here \<^const>\<open>None\<close>.
  \<^item> What the host supplies (locale and ISO date formatting, the shortest decimal
    notation of a number beyond \<open>2^53\<close>, the answer to \<^verbatim>\<open>window.confirm\<close>, the
    clock, the outcome of the HTTP request) is a parameter of the function that uses it.
\<close>

subsection \<open>Values\<close>

type_synonym number = real

type_synonym jsobject = "(string \<times> number) list"

definition getProp :: "(string \<times> 'a) list \<Rightarrow> string \<Rightarrow> 'a option" where
  "getProp obj k = map_of obj k"
  \<comment> \<open>\<^verbatim>\<open>obj.k\<close>: the property's value, or \<^verbatim>\<open>undefined\<close>.\<close>

definition or0 :: "number option \<Rightarrow> number" where
  "or0 v = (case v of None \<Rightarrow> 0 | Some x \<Rightarrow> if x = 0 then 0 else x)"
  \<comment> \<open>\<^verbatim>\<open>v || 0\<close> on a number or \<^verbatim>\<open>undefined\<close>: \<^verbatim>\<open>undefined\<close> and \<open>0\<close> are falsy.\<close>

datatype error = RangeError

record host =
  localeString :: "int \<Rightarrow> string"
    \<comment> \<open>\<^verbatim>\<open>Date.prototype.toLocaleString\<close> of a valid time value\<close>
  localeTimeString :: "int \<Rightarrow> string"
    \<comment> \<open>\<^verbatim>\<open>Date.prototype.toLocaleTimeString\<close> of a valid time value\<close>
  isoString :: "int \<Rightarrow> string"
    \<comment> \<open>\<^verbatim>\<open>Date.prototype.toISOString\<close> of a valid time value\<close>
  numberString :: "real \<Rightarrow> string"
    \<comment> \<open>\<^verbatim>\<open>Number::toString\<close> of a number of magnitude beyond \<open>2^53\<close>\<close>

subsection \<open>IEEE 754 double precision\<close>

text \<open>
  The finite doubles are zero and the reals \<open>\<plusminus> m * u\<close> with an integer \<open>m < 2^53\<close> and
  a spacing \<open>u\<close>, a power of two from \<open>2^-1074\<close> to \<open>2^971\<close>. \<open>ulp a\<close> is the spacing of
  the doubles at the magnitude \<open>a\<close>: the power of two \<open>u\<close> with
  \<open>2^52 * u \<le> a < 2^53 * u\<close>, and \<open>2^-1074\<close> below the normal range. It is found by
  halving from 1 or by doubling from 1. \<open>fl x\<close> is \<open>x\<close> rounded to the nearest multiple
  of the spacing, to the even multiple on a tie: the rounding of every arithmetic
  operation and of every decimal literal. A result whose magnitude reaches
  \<open>2^1024 - 2^970\<close>, half a spacing above the largest double, overflows to an infinity.
  \<open>rounded x\<close> is the double that an operation with the exact result \<open>x\<close> returns, or
  \<^const>\<open>None\<close> when it returns an infinity.
\<close>

function ulpUp :: "real \<Rightarrow> real \<Rightarrow> real" where
  "ulpUp a u = (if u \<le> 0 \<or> a < 2 ^ 53 * u then u else ulpUp a (2 * u))"
  by pat_completeness auto
termination
proof (relation "measure (\<lambda>(a, u). nat \<lfloor>a / u\<rfloor>)")
  show "wf (measure (\<lambda>(a, u). nat \<lfloor>a / u\<rfloor>))"
    by simp
next
  fix a u :: real
  define y where "y = a / u"
  assume "\<not> (u \<le> 0 \<or> a < 2 ^ 53 * u)"
  then have u: "0 < u" and "2 ^ 53 * u \<le> a"
    by simp_all
  then have "2 ^ 53 \<le> y"
    by (simp add: y_def pos_le_divide_eq)
  then have "1 \<le> y"
    by simp
  then have n: "1 \<le> \<lfloor>y\<rfloor>"
    by linarith
  have "y < of_int \<lfloor>y\<rfloor> + 1"
    by linarith
  with n have "y / 2 < of_int \<lfloor>y\<rfloor>"
    by linarith
  then have "\<lfloor>y / 2\<rfloor> < \<lfloor>y\<rfloor>"
    by (simp add: floor_less_iff)
  with n have "nat \<lfloor>y / 2\<rfloor> < nat \<lfloor>y\<rfloor>"
    by linarith
  moreover have "a / (2 * u) = y / 2"
    by (simp add: y_def)
  ultimately show "((a, 2 * u), (a, u)) \<in> measure (\<lambda>(a, u). nat \<lfloor>a / u\<rfloor>)"
    by (simp add: y_def mult.commute)
qed

function ulpDown :: "real \<Rightarrow> real \<Rightarrow> real" where
  "ulpDown a u = (if u \<le> 1 / 2 ^ 1074 \<or> 2 ^ 52 * u \<le> a then u else ulpDown a (u / 2))"
  by pat_completeness auto
termination
proof (relation "measure (\<lambda>(a, u). nat \<lfloor>u * 2 ^ 1074\<rfloor>)")
  show "wf (measure (\<lambda>(a, u). nat \<lfloor>u * 2 ^ 1074\<rfloor>))"
    by simp
next
  fix a u :: real
  define y where "y = u * 2 ^ 1074"
  assume "\<not> (u \<le> 1 / 2 ^ 1074 \<or> 2 ^ 52 * u \<le> a)"
  then have "1 / 2 ^ 1074 < u"
    by simp
  then have "1 \<le> y"
    by (simp add: y_def field_simps)
  then have n: "1 \<le> \<lfloor>y\<rfloor>"
    by linarith
  have "y < of_int \<lfloor>y\<rfloor> + 1"
    by linarith
  with n have "y / 2 < of_int \<lfloor>y\<rfloor>"
    by linarith
  then have "\<lfloor>y / 2\<rfloor> < \<lfloor>y\<rfloor>"
    by (simp add: floor_less_iff)
  with n have "nat \<lfloor>y / 2\<rfloor> < nat \<lfloor>y\<rfloor>"
    by linarith
  then show "((a, u / 2), (a, u)) \<in> measure (\<lambda>(a, u). nat \<lfloor>u * 2 ^ 1074\<rfloor>)"
    by (simp add: y_def)
qed

declare ulpUp.simps [simp del] ulpDown.simps [simp del]

definition ulp :: "real \<Rightarrow> real" where
  "ulp a = (if 2 ^ 53 \<le> a then ulpUp a 1 else ulpDown a 1)"

definition roundEven :: "real \<Rightarrow> int" where
  "roundEven y =
     (let f = \<lfloor>y\<rfloor>
      in if y - of_int f < 1 / 2 then f
         else if 1 / 2 < y - of_int f then f + 1
         else if even f then f else f + 1)"

definition fl :: "real \<Rightarrow> real" where
  "fl x = (let a = \<bar>x\<bar>; u = ulp a in sgn x * (of_int (roundEven (a / u)) * u))"

definition overflows :: "real \<Rightarrow> bool" where
  "overflows x = (2 ^ 1024 - 2 ^ 970 \<le> \<bar>x\<bar>)"

definition rounded :: "real \<Rightarrow> number option" where
  "rounded x = (if overflows x then None else Some (fl x))"

subsection \<open>The state of \<^verbatim>\<open>App\<close> and its handlers\<close>

record entry =
  timestamp :: int
  emotion :: string
  confidence :: number
  emotions :: jsobject

record app_state =
  currentEmotion :: string
  emotionHistory :: "entry list"
  isAnalyzing :: bool
  inputMode :: string
  selectedVideo :: "string option"

definition initial_state :: app_state where
  "initial_state =
     \<lparr>currentEmotion = ''neutral'', emotionHistory = [], isAnalyzing = True,
      inputMode = ''webcam'', selectedVideo = None\<rparr>"
  \<comment> \<open>The five \<^verbatim>\<open>useState\<close> initial values.\<close>

definition handleEmotionDetected :: "string \<Rightarrow> app_state \<Rightarrow> app_state" where
  "handleEmotionDetected emo s = s\<lparr>currentEmotion := emo\<rparr>"

definition handleEmotionHistory :: "entry \<Rightarrow> app_state \<Rightarrow> app_state" where
  "handleEmotionHistory data s = s\<lparr>emotionHistory := emotionHistory s @ [data]\<rparr>"
  \<comment> \<open>\<^verbatim>\<open>setEmotionHistory((prev) => [...prev, data])\<close>\<close>

definition handleToggleAnalysis :: "app_state \<Rightarrow> app_state" where
  "handleToggleAnalysis s = s\<lparr>isAnalyzing := \<not> isAnalyzing s\<rparr>"

definition handleReset :: "bool \<Rightarrow> app_state \<Rightarrow> app_state" where
  "handleReset confirmed s =
     (if confirmed then (s\<lparr>emotionHistory := []\<rparr>)\<lparr>currentEmotion := ''neutral''\<rparr> else s)"
  \<comment> \<open>The first argument is what \<^verbatim>\<open>window.confirm\<close> returned.\<close>

primrec appends :: "entry list \<Rightarrow> app_state \<Rightarrow> app_state" where
  "appends [] s = s"
| "appends (d # ds) s = appends ds (handleEmotionHistory d s)"
  \<comment> \<open>A run of \<^verbatim>\<open>handleEmotionHistory\<close> calls, one per sample, first sample first.\<close>

subsection \<open>Number and date formatting\<close>

text \<open>
  \<^verbatim>\<open>Number.prototype.toFixed(f)\<close> as ECMA-262 defines it on a finite number: the sign
  is split off, a magnitude of \<open>10^21\<close> or more is printed by \<^verbatim>\<open>Number::toString\<close>
  (left to the host), and otherwise the integer \<open>n\<close> nearest to
  \<open>x * 10^f\<close> (the larger one on a tie) is printed in decimal, padded with zeros to more
  than \<open>f\<close> digits, with a point before the last \<open>f\<close> digits. \<open>digits\<close> prints a
  natural number in decimal.
\<close>

definition digit :: "int \<Rightarrow> char" where
  "digit d = ''0123456789'' ! nat d"

function digits :: "int \<Rightarrow> string" where
  "digits n = (if n < 10 then [digit n] else digits (n div 10) @ [digit (n mod 10)])"
  by pat_completeness auto
termination
  by (relation "measure nat") auto

declare digits.simps [simp del]

definition toFixed :: "host \<Rightarrow> nat \<Rightarrow> number \<Rightarrow> string" where
  "toFixed h f x0 =
     (let s = (if x0 < 0 then ''-'' else []);
          x = (if x0 < 0 then - x0 else x0)
      in if 10 ^ 21 \<le> x then s @ numberString h x
         else
           let n = \<lfloor>x * 10 ^ f + 1 / 2\<rfloor>;
               m = digits n;
               m = (if f \<noteq> 0 then
                      let m = (if length m \<le> f
                               then replicate (f + 1 - length m) (CHR ''0'') @ m else m);
                          k = length m
                      in take (k - f) m @ ''.'' @ drop (k - f) m
                    else m)
           in s @ m)"

definition intToString :: "host \<Rightarrow> int \<Rightarrow> string" where
  "intToString h n =
     (if 2 ^ 53 < \<bar>n\<bar> then numberString h (real_of_int n)
      else (if n < 0 then ''-'' else []) @ digits \<bar>n\<bar>)"

text \<open>
  \<^const>\<open>intToString\<close> is \<^verbatim>\<open>Number::toString\<close> on an integral number: up to \<open>2^53\<close>
  every integer is a double and prints with all its digits; beyond, the shortest digits
  that denote the double are printed, which is left to the host.
  \<^verbatim>\<open>new Date(t)\<close> clips its time value: beyond \<open>8.64 * 10^15\<close> ms the date is invalid.
  An invalid date prints as \<^verbatim>\<open>Invalid Date\<close> in the locale formats, and
  \<^verbatim>\<open>toISOString\<close> throws a \<^verbatim>\<open>RangeError\<close> on it.
\<close>

definition timeClip :: "int \<Rightarrow> int option" where
  "timeClip t = (if \<bar>t\<bar> \<le> 8640000000000000 then Some t else None)"

definition toLocaleString :: "host \<Rightarrow> int \<Rightarrow> string" where
  "toLocaleString h t =
     (case timeClip t of None \<Rightarrow> ''Invalid Date'' | Some tv \<Rightarrow> localeString h tv)"

definition toLocaleTimeString :: "host \<Rightarrow> int \<Rightarrow> string" where
  "toLocaleTimeString h t =
     (case timeClip t of None \<Rightarrow> ''Invalid Date'' | Some tv \<Rightarrow> localeTimeString h tv)"

definition toISOString :: "host \<Rightarrow> int \<Rightarrow> error + string" where
  "toISOString h t =
     (case timeClip t of None \<Rightarrow> Inl RangeError | Some tv \<Rightarrow> Inr (isoString h tv))"

subsection \<open>\<^verbatim>\<open>App.handleExportCSV\<close>\<close>

text \<open>
  A row of the table before it is joined: the first cell of a data row is the timestamp,
  a number; every other cell is a string. \<^verbatim>\<open>(v * 100).toFixed(2) + '%'\<close> on a property
  that is absent multiplies \<^verbatim>\<open>undefined\<close>, which gives NaN, and \<^verbatim>\<open>toFixed\<close> prints
  NaN as \<^verbatim>\<open>NaN\<close> and an infinity as \<^verbatim>\<open>Infinity\<close>; the product of a number and 100
  is rounded and may overflow. In \<^const>\<open>None\<close> the handler has returned without creating a file;
  its argument \<open>now\<close> is what \<^verbatim>\<open>Date.now()\<close> returns.
\<close>

datatype cell = Num int | Str string

definition headers :: "cell list" where
  "headers = map Str
     [''Timestamp'', ''Time'', ''Dominant Emotion'', ''Confidence'', ''Happy'', ''Sad'',
      ''Angry'', ''Surprise'', ''Fear'', ''Disgust'', ''Neutral'']"

definition percent :: "host \<Rightarrow> number option \<Rightarrow> string" where
  "percent h v =
     (case v of
        None \<Rightarrow> ''NaN''
      | Some x \<Rightarrow>
          (case rounded (x * 100) of
             None \<Rightarrow> (if x < 0 then ''-Infinity'' else ''Infinity'')
           | Some p \<Rightarrow> toFixed h 2 p)) @ ''%''"

definition csvRow :: "host \<Rightarrow> entry \<Rightarrow> cell list" where
  "csvRow h e =
     [Num (timestamp e),
      Str (toLocaleString h (timestamp e)),
      Str (emotion e),
      Str (percent h (Some (confidence e))),
      Str (percent h (getProp (emotions e) ''happy'')),
      Str (percent h (getProp (emotions e) ''sad'')),
      Str (percent h (getProp (emotions e) ''angry'')),
      Str (percent h (getProp (emotions e) ''surprise'')),
      Str (percent h (getProp (emotions e) ''fear'')),
      Str (percent h (getProp (emotions e) ''disgust'')),
      Str (percent h (getProp (emotions e) ''neutral''))]"

definition csvTable :: "host \<Rightarrow> entry list \<Rightarrow> cell list list" where
  "csvTable h hist = headers # map (csvRow h) hist"

definition cellString :: "host \<Rightarrow> cell \<Rightarrow> string" where
  "cellString h c = (case c of Num n \<Rightarrow> intToString h n | Str s \<Rightarrow> s)"

fun join :: "string \<Rightarrow> string list \<Rightarrow> string" where
  "join sep [] = []"
| "join sep [x] = x"
| "join sep (x # y # ys) = x @ sep @ join sep (y # ys)"

definition csvContent :: "host \<Rightarrow> entry list \<Rightarrow> string" where
  "csvContent h hist =
     join [CHR 0x0A] (map (\<lambda>row. join '','' (map (cellString h) row)) (csvTable h hist))"

record csv_download =
  csv_name :: string
  csv_type :: string
  csv_content :: string

definition handleExportCSV :: "host \<Rightarrow> int \<Rightarrow> entry list \<Rightarrow> csv_download option" where
  "handleExportCSV h now hist =
     (if length hist = 0 then None
      else Some \<lparr>csv_name = ''emotion-analysis-'' @ intToString h now @ ''.csv'',
                 csv_type = ''text/csv'',
                 csv_content = csvContent h hist\<rparr>)"

subsection \<open>\<^verbatim>\<open>App.handleExportJSON\<close>\<close>

text \<open>
  The handler builds the object \<^verbatim>\<open>jsonData\<close> and hands its \<^verbatim>\<open>JSON.stringify\<close> text
  to the download; the embedding stops at the object. \<^verbatim>\<open>toISOString\<close> may throw, so
  building the object may fail: \<^const>\<open>Inl\<close> is the exception. \<open>subtract\<close> is the
  difference of two integral doubles, rounded; a payload is built only from valid time
  values, whose difference is far from overflowing. Of the two clock readings,
  \<open>now\<close> is the time \<^verbatim>\<open>new Date()\<close> reads and \<open>now'\<close> what the later
  \<^verbatim>\<open>Date.now()\<close> returns.
\<close>

record export_item =
  item_timestamp :: int
  item_time :: string
  dominantEmotion :: string
  item_confidence :: number
  item_allEmotions :: jsobject

record json_export =
  exportDate :: string
  totalRecords :: nat
  duration :: int
  data :: "export_item list"

record json_download =
  json_name :: string
  json_type :: string
  json_payload :: json_export

definition exportItem :: "host \<Rightarrow> entry \<Rightarrow> error + export_item" where
  "exportItem h e =
     (case toISOString h (timestamp e) of
        Inl err \<Rightarrow> Inl err
      | Inr str \<Rightarrow>
          Inr \<lparr>item_timestamp = timestamp e, item_time = str, dominantEmotion = emotion e,
               item_confidence = confidence e, item_allEmotions = emotions e\<rparr>)"

fun mapE :: "('a \<Rightarrow> error + 'b) \<Rightarrow> 'a list \<Rightarrow> error + 'b list" where
  "mapE f [] = Inr []"
| "mapE f (x # xs) =
     (case f x of
        Inl err \<Rightarrow> Inl err
      | Inr y \<Rightarrow> (case mapE f xs of Inl err \<Rightarrow> Inl err | Inr ys \<Rightarrow> Inr (y # ys)))"

definition subtract :: "int \<Rightarrow> int \<Rightarrow> int" where
  "subtract x y = \<lfloor>fl (of_int x - of_int y)\<rfloor>"

definition jsonData :: "host \<Rightarrow> int \<Rightarrow> entry list \<Rightarrow> error + json_export" where
  "jsonData h now hist =
     (case toISOString h now of
        Inl err \<Rightarrow> Inl err
      | Inr date \<Rightarrow>
          let d = (if length hist > 0
                   then subtract (timestamp (hist ! (length hist - 1))) (timestamp (hist ! 0))
                   else 0)
          in (case mapE (exportItem h) hist of
                Inl err \<Rightarrow> Inl err
              | Inr items \<Rightarrow>
                  Inr \<lparr>exportDate = date, totalRecords = length hist, duration = d,
                       data = items\<rparr>))"

definition handleExportJSON ::
  "host \<Rightarrow> int \<Rightarrow> int \<Rightarrow> entry list \<Rightarrow> error + json_download option" where
  "handleExportJSON h now now' hist =
     (if length hist = 0 then Inr None
      else (case jsonData h now hist of
              Inl err \<Rightarrow> Inl err
            | Inr j \<Rightarrow>
                Inr (Some \<lparr>json_name = ''emotion-analysis-'' @ intToString h now' @ ''.json'',
                          json_type = ''application/json'',
                          json_payload = j\<rparr>)))"

text \<open>
  Reading an exported record back as a sample is the inverse that the round-trip
  property speaks of. The front end has no import; \<open>reconstruct\<close> is the reader's side.
\<close>

definition reconstruct :: "export_item \<Rightarrow> entry" where
  "reconstruct it =
     \<lparr>timestamp = item_timestamp it, emotion = dominantEmotion it,
      confidence = item_confidence it, emotions = item_allEmotions it\<rparr>"

subsection \<open>\<^verbatim>\<open>EmotionChart\<close>\<close>

text \<open>
  One point of \<^verbatim>\<open>chartData\<close> per sample: its index, its time label and the seven
  percentages \<^verbatim>\<open>(entry.emotions.k || 0) * 100\<close>, listed under their keys in the order
  of the object literal. Each product is rounded and may overflow, each sum and the
  quotient likewise. \<^verbatim>\<open>curr[emotion]\<close> reads a percentage by its key. A sum with
  \<^verbatim>\<open>undefined\<close> or with a value that is not finite is not a finite number, nor is a
  quotient by zero; the percentages and the averages are options, \<^const>\<open>None\<close> for a
  value that is not a finite number. The length of the history is far below \<open>2^53\<close>,
  so as a number it is exact.
  The legend is rendered under \<^verbatim>\<open>emotionHistory.length > 0 &&\<close> for the first four
  keys of \<^verbatim>\<open>emotionColors\<close>; it shows each average with \<^verbatim>\<open>toFixed(0)\<close> and a percent
  sign. \<^const>\<open>None\<close> is a legend that is not rendered.
\<close>

definition emotionColors :: "(string \<times> string) list" where
  "emotionColors =
     [(''happy'', ''#FBBF24''), (''sad'', ''#3B82F6''), (''angry'', ''#EF4444''),
      (''surprise'', ''#A855F7''), (''fear'', ''#6B7280''), (''disgust'', ''#10B981''),
      (''neutral'', ''#9CA3AF'')]"

record chart_point =
  time :: nat
  timeLabel :: string
  percentages :: "(string \<times> number option) list"

definition chartPoint :: "host \<Rightarrow> entry \<Rightarrow> nat \<Rightarrow> chart_point" where
  "chartPoint h e index =
     \<lparr>time = index,
      timeLabel = toLocaleTimeString h (timestamp e),
      percentages =
        [(''happy'', rounded (or0 (getProp (emotions e) ''happy'') * 100)),
         (''sad'', rounded (or0 (getProp (emotions e) ''sad'') * 100)),
         (''angry'', rounded (or0 (getProp (emotions e) ''angry'') * 100)),
         (''surprise'', rounded (or0 (getProp (emotions e) ''surprise'') * 100)),
         (''fear'', rounded (or0 (getProp (emotions e) ''fear'') * 100)),
         (''disgust'', rounded (or0 (getProp (emotions e) ''disgust'') * 100)),
         (''neutral'', rounded (or0 (getProp (emotions e) ''neutral'') * 100))]\<rparr>"

definition chartData :: "host \<Rightarrow> entry list \<Rightarrow> chart_point list" where
  "chartData h hist = map (\<lambda>(e, index). chartPoint h e index) (zip hist [0..<length hist])"

definition add :: "number option \<Rightarrow> number option \<Rightarrow> number option" where
  "add a b = (case (a, b) of (Some x, Some y) \<Rightarrow> rounded (x + y) | _ \<Rightarrow> None)"

definition element :: "chart_point \<Rightarrow> string \<Rightarrow> number option" where
  "element point emo =
     (case getProp (percentages point) emo of None \<Rightarrow> None | Some v \<Rightarrow> v)"

definition avgValue :: "string \<Rightarrow> chart_point list \<Rightarrow> number option" where
  "avgValue emo cd =
     (case foldl (\<lambda>acc curr. add acc (element curr emo)) (Some 0) cd of
        None \<Rightarrow> None
      | Some a \<Rightarrow> if length cd = 0 then None else rounded (a / real (length cd)))"

definition legend :: "host \<Rightarrow> entry list \<Rightarrow> (string \<times> number option) list option" where
  "legend h hist =
     (if length hist > 0
      then Some (map (\<lambda>(emo, color). (emo, avgValue emo (chartData h hist)))
                  (take 4 emotionColors))
      else None)"

subsection \<open>\<^verbatim>\<open>detectEmotion\<close> and \<^verbatim>\<open>CameraPanel\<close>\<close>

text \<open>
  The request either resolves with the response body (\<^const>\<open>None\<close> for a body that is
  \<^verbatim>\<open>null\<close> or empty) or rejects with an error whose message is a string. A result
  has its fields \<^verbatim>\<open>all_emotions\<close> and \<^verbatim>\<open>error\<close> or lacks them. In a condition a string
  counts as true unless it is absent or empty.
\<close>

record emotion_result =
  res_emotion :: string
  res_confidence :: number
  all_emotions :: "jsobject option"
  res_error :: "string option"

datatype response = Resolved "emotion_result option" | Rejected string

fun detectEmotion :: "response \<Rightarrow> emotion_result option" where
  "detectEmotion (Resolved body) = body"
| "detectEmotion (Rejected message) =
     Some \<lparr>res_emotion = ''neutral'', res_confidence = 0.0, all_emotions = None,
            res_error = Some message\<rparr>"

definition truthy :: "string option \<Rightarrow> bool" where
  "truthy v = (case v of None \<Rightarrow> False | Some s \<Rightarrow> s \<noteq> [])"

record camera_state =
  cam_emotion :: string
  cam_confidence :: number
  allEmotions :: jsobject
  isDetecting :: bool

definition initial_camera :: camera_state where
  "initial_camera =
     \<lparr>cam_emotion = ''neutral'', cam_confidence = 0, allEmotions = [], isDetecting = False\<rparr>"

text \<open>
  One run of \<^verbatim>\<open>captureAndDetect\<close>, taken as one step on the panel's state and the
  parent's: \<open>onEmotionDetected\<close> is the callback prop (absent or a function on the
  parent's state), \<open>webcam\<close> says whether \<^verbatim>\<open>webcamRef.current\<close> is set, \<open>imageSrc\<close> is
  what \<^verbatim>\<open>getScreenshot()\<close> returned and \<open>r\<close> is how the request ended.
\<close>

definition captureAndDetect ::
  "(string \<Rightarrow> 'p \<Rightarrow> 'p) option \<Rightarrow> bool \<Rightarrow> string option \<Rightarrow> response \<Rightarrow>
   camera_state \<times> 'p \<Rightarrow> camera_state \<times> 'p" where
  "captureAndDetect onEmotionDetected webcam imageSrc r st =
     (let (c, p) = st in
      if webcam \<and> \<not> isDetecting c then
        let c = c\<lparr>isDetecting := True\<rparr>;
            (c, p) =
              (if truthy imageSrc then
                 (case detectEmotion r of
                    None \<Rightarrow> (c, p)
                  | Some result \<Rightarrow>
                      if \<not> truthy (res_error result) then
                        (c\<lparr>cam_emotion := res_emotion result,
                           cam_confidence := res_confidence result,
                           allEmotions :=
                             (case all_emotions result of None \<Rightarrow> [] | Some obj \<Rightarrow> obj)\<rparr>,
                         case onEmotionDetected of
                           None \<Rightarrow> p
                         | Some f \<Rightarrow> f (res_emotion result) p)
                      else (c, p))
               else (c, p))
        in (c\<lparr>isDetecting := False\<rparr>, p)
      else (c, p))"

text \<open>
  The emotion bars: \<^verbatim>\<open>Object.entries(allEmotions).sort((a, b) => b[1] - a[1]).slice(0, 5)\<close>.
  \<^verbatim>\<open>Array.prototype.sort\<close> is stable; it is embedded as the insertion sort that puts
  an element before the first later one that the comparator does not rank before it.
\<close>

fun insertBy :: "('a \<Rightarrow> 'a \<Rightarrow> real) \<Rightarrow> 'a \<Rightarrow> 'a list \<Rightarrow> 'a list" where
  "insertBy cmp x [] = [x]"
| "insertBy cmp x (y # ys) =
     (if cmp x y \<le> 0 then x # y # ys else y # insertBy cmp x ys)"

definition sortBy :: "('a \<Rightarrow> 'a \<Rightarrow> real) \<Rightarrow> 'a list \<Rightarrow> 'a list" where
  "sortBy cmp xs = foldr (insertBy cmp) xs []"

definition byValueDesc :: "string \<times> number \<Rightarrow> string \<times> number \<Rightarrow> real" where
  "byValueDesc a b = snd b - snd a"

definition emotionBars :: "jsobject \<Rightarrow> (string \<times> number) list" where
  "emotionBars obj = take 5 (sortBy byValueDesc obj)"

subsection \<open>Sample inputs\<close>

text \<open>
  A host whose date formats print the time value in decimal, a host whose locale format
  has a comma in it, as the en-US format has, and the two samples of the
  specification's scenario, their scores being the doubles that the decimal literals
  denote; they serve as concrete inputs.
\<close>

definition plain_host :: host where
  "plain_host =
     \<lparr>localeString = digits, localeTimeString = digits, isoString = digits,
      numberString = (\<lambda>x. ''1e+21'')\<rparr>"


definition sample1 :: entry where
  "sample1 =
     \<lparr>timestamp = 1000, emotion = ''happy'', confidence = fl (8 / 10),
      emotions = [(''happy'', fl (8 / 10)), (''sad'', fl (1 / 10)), (''neutral'', fl (1 / 10))]\<rparr>"

definition sample2 :: entry where
  "sample2 =
     \<lparr>timestamp = 4000, emotion = ''sad'', confidence = fl (6 / 10),
      emotions = [(''happy'', fl (1 / 10)), (''sad'', fl (6 / 10)), (''neutral'', fl (3 / 10))]\<rparr>"

subsection \<open>Notions the properties are stated with\<close>

text \<open>
  The seven labels in their canonical order; a time value that \<^verbatim>\<open>new Date\<close> accepts;
  the payload of a JSON export that took place; the score a chart reads for a label; the
  arithmetic mean; and fixed-point notation with two decimals of a number \<open>y \<ge> 0\<close>: the
  digits of the integer part of \<open>y\<close> rounded to hundredths, a point and two digits.
\<close>

definition labels :: "string list" where
  "labels = [''happy'', ''sad'', ''angry'', ''surprise'', ''fear'', ''disgust'', ''neutral'']"

definition validTime :: "int \<Rightarrow> bool" where
  "validTime t = (\<bar>t\<bar> \<le> 8640000000000000)"

definition exportedPayload :: "error + json_download option \<Rightarrow> json_export option" where
  "exportedPayload r =
     (case r of Inl err \<Rightarrow> None | Inr None \<Rightarrow> None | Inr (Some f) \<Rightarrow> Some (json_payload f))"

definition score :: "string \<Rightarrow> entry \<Rightarrow> number" where
  "score k e = or0 (getProp (emotions e) k)"

definition mean :: "real list \<Rightarrow> real" where
  "mean xs = sum_list xs / real (length xs)"



section \<open>Theorems\<close>

lemma emotionHistory_appends: "emotionHistory (appends ds s) = emotionHistory s @ ds"
  by (induction ds arbitrary: s) (simp_all add: handleEmotionHistory_def)

subsection \<open>Appending samples\<close>

text \<open>
  C2. \<^verbatim>\<open>handleEmotionHistory\<close> puts the new sample at the end of the history and
  changes nothing else. After any run of appends the history is the old history followed
  by the samples in the order of the calls; started from the initial state it is exactly
  the list of samples appended, so a traversal from the first index to the last meets
  them in that order, and the entries that were there before are still there, unchanged
  and in their places.
\<close>

theorem append_keeps_order:
  "emotionHistory (handleEmotionHistory d s) = emotionHistory s @ [d]
   \<and> handleEmotionHistory d s = s\<lparr>emotionHistory := emotionHistory s @ [d]\<rparr>
   \<and> emotionHistory (appends ds s) = emotionHistory s @ ds
   \<and> emotionHistory (appends ds initial_state) = ds
   \<and> length (emotionHistory (appends ds s)) = length (emotionHistory s) + length ds
   \<and> take (length (emotionHistory s)) (emotionHistory (appends ds s)) = emotionHistory s
   \<and> drop (length (emotionHistory s)) (emotionHistory (appends ds s)) = ds"
  by (simp add: emotionHistory_appends handleEmotionHistory_def initial_state_def)

subsection \<open>Reset\<close>

text \<open>
  C10. \<^verbatim>\<open>handleReset\<close> asks for confirmation. When the user declines, the state is
  left as it was, history and current emotion included. When the user confirms, the
  history becomes empty and the current emotion becomes \<^verbatim>\<open>neutral\<close>, whatever it was;
  the analysis flag, the input mode and the selected video keep their values.
\<close>

theorem reset_is_confirmation_gated:
  "handleReset False s = s
   \<and> emotionHistory (handleReset True s) = []
   \<and> currentEmotion (handleReset True s) = ''neutral''
   \<and> isAnalyzing (handleReset True s) = isAnalyzing s
   \<and> inputMode (handleReset True s) = inputMode s
   \<and> selectedVideo (handleReset True s) = selectedVideo s
   \<and> handleReset True (s\<lparr>currentEmotion := ''happy''\<rparr>)
       = s\<lparr>currentEmotion := ''neutral'', emotionHistory := []\<rparr>"
  by (simp add: handleReset_def)

subsection \<open>Rounding to a double\<close>

lemma ulpDown_positive: "0 < u \<Longrightarrow> 0 < ulpDown a u"
proof (induction a u rule: ulpDown.induct)
  case (1 a u)
  then show ?case
    by (subst ulpDown.simps) simp
qed

lemma ulpUp_positive: "0 < u \<Longrightarrow> 0 < ulpUp a u"
proof (induction a u rule: ulpUp.induct)
  case (1 a u)
  then show ?case
    by (subst ulpUp.simps) simp
qed

lemma ulp_positive: "0 < ulp a"
  by (simp add: ulp_def ulpDown_positive ulpUp_positive)

lemma ulpDown_upper: "a < 2 ^ 53 * u \<Longrightarrow> a < 2 ^ 53 * ulpDown a u"
proof (induction a u rule: ulpDown.induct)
  case (1 a u)
  then show ?case
    by (subst ulpDown.simps) (simp add: not_le)
qed

lemma ulpUp_upper: "0 < u \<Longrightarrow> a < 2 ^ 53 * ulpUp a u"
proof (induction a u rule: ulpUp.induct)
  case (1 a u)
  then show ?case
    by (subst ulpUp.simps) simp
qed

lemma ulp_upper: "a < 2 ^ 53 * ulp a"
proof (cases "2 ^ 53 \<le> a")
  case True
  then show ?thesis
    using ulpUp_upper [of 1 a] by (simp add: ulp_def)
next
  case False
  then show ?thesis
    using ulpDown_upper [of a 1] by (simp add: ulp_def)
qed

lemma ulpDown_lower: "ulpDown a u \<le> 1 / 2 ^ 1074 \<or> 2 ^ 52 * ulpDown a u \<le> a"
proof (induction a u rule: ulpDown.induct)
  case (1 a u)
  then show ?case
    by (subst (1 2) ulpDown.simps) auto
qed

lemma ulpUp_lower: "0 < u \<Longrightarrow> 2 ^ 52 * u \<le> a \<Longrightarrow> 2 ^ 52 * ulpUp a u \<le> a"
proof (induction a u rule: ulpUp.induct)
  case (1 a u)
  then show ?case
    by (subst ulpUp.simps) (simp add: not_less)
qed

lemma ulp_lower: "ulp a \<le> 1 / 2 ^ 1074 \<or> 2 ^ 52 * ulp a \<le> a"
  using ulpDown_lower [of a 1] ulpUp_lower [of 1 a]
  by (auto simp add: ulp_def)

lemma ulp_half: "0 \<le> a \<Longrightarrow> ulp a / 2 \<le> (a + 1) / 2 ^ 53"
proof -
  assume a: "0 \<le> a"
  from ulp_lower [of a] show ?thesis
  proof
    assume "ulp a \<le> 1 / 2 ^ 1074"
    also have "(1::real) / 2 ^ 1074 \<le> 1 / 2 ^ 52"
      by (intro divide_left_mono power_increasing) simp_all
    finally have "ulp a / 2 \<le> 1 / 2 ^ 53"
      by simp
    also have "\<dots> \<le> (a + 1) / 2 ^ 53"
      using a by (simp add: divide_right_mono)
    finally show ?thesis .
  next
    assume "2 ^ 52 * ulp a \<le> a"
    then have "ulp a / 2 \<le> a / 2 ^ 53"
      by (simp add: field_simps)
    also have "\<dots> \<le> (a + 1) / 2 ^ 53"
      by (simp add: divide_right_mono)
    finally show ?thesis .
  qed
qed

lemma roundEven_near: "\<bar>of_int (roundEven y) - y\<bar> \<le> 1 / 2"
  unfolding roundEven_def Let_def by (auto simp add: abs_le_iff)

lemma roundEven_nonneg: "0 \<le> y \<Longrightarrow> 0 \<le> roundEven y"
  unfolding roundEven_def Let_def by auto

lemma roundEven_int: "roundEven (of_int z) = z"
  by (simp add: roundEven_def)

lemma fl_error_ulp: "\<bar>fl x - x\<bar> \<le> ulp \<bar>x\<bar> / 2"
proof -
  define u where "u = ulp \<bar>x\<bar>"
  have u: "0 < u"
    by (simp add: u_def ulp_positive)
  define r where "r = real_of_int (roundEven (\<bar>x\<bar> / u))"
  have "\<bar>r - \<bar>x\<bar> / u\<bar> \<le> 1 / 2"
    unfolding r_def by (rule roundEven_near)
  then have "\<bar>r - \<bar>x\<bar> / u\<bar> * u \<le> 1 / 2 * u"
    using u by (intro mult_right_mono) simp_all
  moreover have "(r - \<bar>x\<bar> / u) * u = r * u - \<bar>x\<bar>"
    using u by (simp add: left_diff_distrib)
  then have "\<bar>r - \<bar>x\<bar> / u\<bar> * u = \<bar>r * u - \<bar>x\<bar>\<bar>"
    using u by (metis abs_mult abs_of_pos)
  ultimately have e: "\<bar>r * u - \<bar>x\<bar>\<bar> \<le> u / 2"
    by simp
  have "x = sgn x * \<bar>x\<bar>"
    by (simp add: sgn_real_def)
  then have "fl x - x = sgn x * (r * u) - sgn x * \<bar>x\<bar>"
    by (simp add: fl_def Let_def u_def r_def)
  then have "fl x - x = sgn x * (r * u - \<bar>x\<bar>)"
    by (simp only: right_diff_distrib)
  then have "\<bar>fl x - x\<bar> = \<bar>sgn x\<bar> * \<bar>r * u - \<bar>x\<bar>\<bar>"
    by (simp add: abs_mult)
  also have "\<dots> \<le> 1 * \<bar>r * u - \<bar>x\<bar>\<bar>"
    by (intro mult_right_mono) (simp_all add: abs_sgn_eq)
  finally show ?thesis
    using e by (simp add: u_def)
qed

lemma fl_error: "\<bar>fl x - x\<bar> \<le> (\<bar>x\<bar> + 1) / 2 ^ 53"
  using fl_error_ulp [of x] ulp_half [of "\<bar>x\<bar>"] by simp

lemma fl_nonneg: "0 \<le> x \<Longrightarrow> 0 \<le> fl x"
  using ulp_positive [of "\<bar>x\<bar>"] roundEven_nonneg [of "\<bar>x\<bar> / ulp \<bar>x\<bar>"]
  by (simp add: fl_def Let_def sgn_real_def)

lemma inverse_power_less: "k < n \<Longrightarrow> \<not> (1::real) / 2 ^ k \<le> 1 / 2 ^ n"
proof -
  assume "k < n"
  then have "(2::real) ^ k < 2 ^ n"
    by (intro power_strict_increasing) simp_all
  then have "(1::real) / 2 ^ n < 1 / 2 ^ k"
    by (intro divide_strict_left_mono) simp_all
  then show ?thesis
    by simp
qed

lemma ulpDown_eq:
  assumes "m \<le> n" and "a < 2 ^ 53 / 2 ^ n" and "n = 1074 \<or> n < 1074 \<and> 2 ^ 52 / 2 ^ n \<le> a"
  shows "ulpDown a (1 / 2 ^ m) = 1 / 2 ^ n"
  using assms(1)
proof (induction rule: inc_induct)
  case base
  from assms(3) show ?case
    by (subst ulpDown.simps) auto
next
  case (step k)
  from step.hyps assms(3) have "k < 1074"
    by auto
  then have a: "\<not> (1::real) / 2 ^ k \<le> 1 / 2 ^ 1074"
    by (rule inverse_power_less)
  have "(2::real) ^ 53 / 2 ^ n \<le> 2 ^ 53 / 2 ^ Suc k"
    using step.hyps by (intro divide_left_mono power_increasing) simp_all
  with assms(2) have "a < 2 ^ 52 * (1 / 2 ^ k)"
    by simp
  with a have "ulpDown a (1 / 2 ^ k) = ulpDown a (1 / 2 ^ k / 2)"
    by (subst ulpDown.simps) simp
  also have "(1::real) / 2 ^ k / 2 = 1 / 2 ^ Suc k"
    by simp
  finally show ?case
    using step.IH by simp
qed

lemma ulp_small:
  assumes "\<bar>x\<bar> * 2 ^ n < 2 ^ 53" and "n = 1074 \<or> n < 1074 \<and> 2 ^ 52 \<le> \<bar>x\<bar> * 2 ^ n"
  shows "ulp \<bar>x\<bar> = 1 / 2 ^ n"
proof -
  have "\<bar>x\<bar> * 1 \<le> \<bar>x\<bar> * 2 ^ n"
    by (intro mult_left_mono) simp_all
  with assms(1) have lt: "\<bar>x\<bar> < 2 ^ 53"
    by simp
  have "ulpDown \<bar>x\<bar> (1 / 2 ^ 0) = 1 / 2 ^ n"
    using assms by (intro ulpDown_eq) (auto simp add: field_simps)
  with lt show ?thesis
    by (simp add: ulp_def)
qed

lemma fl_small:
  assumes "\<bar>x\<bar> * 2 ^ n < 2 ^ 53" and "n = 1074 \<or> n < 1074 \<and> 2 ^ 52 \<le> \<bar>x\<bar> * 2 ^ n"
  shows "fl x = sgn x * of_int (roundEven (\<bar>x\<bar> * 2 ^ n)) / 2 ^ n"
  by (simp add: fl_def Let_def ulp_small [OF assms])

lemma ulpDown_power: "u = 1 / 2 ^ m \<Longrightarrow> \<exists>n. ulpDown a u = 1 / 2 ^ n"
proof (induction a u arbitrary: m rule: ulpDown.induct)
  case (1 a u)
  show ?case
  proof (cases "u \<le> 1 / 2 ^ 1074 \<or> 2 ^ 52 * u \<le> a")
    case True
    then have "ulpDown a u = u"
      by (subst ulpDown.simps) simp
    with 1(2) show ?thesis
      by blast
  next
    case False
    then have "ulpDown a u = ulpDown a (u / 2)"
      by (subst ulpDown.simps) simp
    moreover from 1(2) have "u / 2 = 1 / 2 ^ Suc m"
      by simp
    then obtain n where "ulpDown a (u / 2) = 1 / 2 ^ n"
      using 1(1) [OF False] by blast
    ultimately show ?thesis
      by auto
  qed
qed

lemma fl_zero: "fl 0 = 0"
  by (simp add: fl_def)

lemma fl_int:
  assumes "\<bar>z\<bar> \<le> 2 ^ 53"
  shows "fl (of_int z) = of_int z"
proof (cases "\<bar>z\<bar> = 2 ^ 53")
  case True
  then have a: "\<bar>real_of_int z\<bar> = 2 ^ 53"
    by (metis of_int_abs of_int_numeral of_int_power)
  have "ulpUp (2 ^ 53) 1 = ulpUp (2 ^ 53) 2"
    by (subst ulpUp.simps) simp
  also have "\<dots> = 2"
    by (subst ulpUp.simps) simp
  finally have "ulp \<bar>real_of_int z\<bar> = 2"
    by (simp add: a ulp_def)
  moreover have "roundEven (2 ^ 53 / 2) = 2 ^ 52"
    by (simp add: roundEven_def)
  ultimately have "fl (of_int z) = sgn (real_of_int z) * 2 ^ 53"
    by (simp add: fl_def Let_def a)
  also have "\<dots> = sgn (real_of_int z) * \<bar>real_of_int z\<bar>"
    by (simp only: a)
  finally show ?thesis
    by (simp add: sgn_real_def)
next
  case False
  with assms have "\<bar>z\<bar> < 2 ^ 53"
    by simp
  then have lt: "\<bar>real_of_int z\<bar> < 2 ^ 53"
    by (metis of_int_abs of_int_less_iff of_int_numeral of_int_power)
  obtain n where "ulpDown \<bar>real_of_int z\<bar> (1 / 2 ^ 0) = 1 / 2 ^ n"
    using ulpDown_power [of "1 / 2 ^ 0" 0] by blast
  with lt have u: "ulp \<bar>real_of_int z\<bar> = 1 / 2 ^ n"
    by (simp add: ulp_def)
  have "\<bar>real_of_int z\<bar> / (1 / 2 ^ n) = of_int (\<bar>z\<bar> * 2 ^ n)"
    by simp
  then have "roundEven (\<bar>real_of_int z\<bar> / (1 / 2 ^ n)) = \<bar>z\<bar> * 2 ^ n"
    by (simp only: roundEven_int)
  then have "fl (of_int z) = sgn (real_of_int z) * (of_int (\<bar>z\<bar> * 2 ^ n) * (1 / 2 ^ n))"
    by (simp add: fl_def Let_def u)
  also have "\<dots> = sgn (real_of_int z) * \<bar>real_of_int z\<bar>"
    by simp
  finally show ?thesis
    by (simp add: sgn_real_def)
qed

lemma subtract_exact: "\<bar>x - y\<bar> \<le> 2 ^ 53 \<Longrightarrow> subtract x y = x - y"
  using fl_int [of "x - y"] by (simp add: subtract_def)

lemma ulpUp_eq:
  assumes "m \<le> n" and "a < 2 ^ 53 * 2 ^ n" and "2 ^ 52 * 2 ^ n \<le> a"
  shows "ulpUp a (2 ^ m) = 2 ^ n"
  using assms(1)
proof (induction rule: inc_induct)
  case base
  from assms(2) show ?case
    by (subst ulpUp.simps) simp
next
  case (step k)
  have "(2::real) ^ 53 * 2 ^ k = 2 ^ 52 * 2 ^ Suc k"
    by simp
  also have "\<dots> \<le> 2 ^ 52 * 2 ^ n"
    using step.hyps by (intro mult_left_mono power_increasing) simp_all
  finally have "\<not> a < 2 ^ 53 * 2 ^ k"
    using assms(3) by simp
  moreover have "\<not> (2::real) ^ k \<le> 0"
    by (simp add: not_le)
  ultimately have "ulpUp a (2 ^ k) = ulpUp a (2 * 2 ^ k)"
    by (subst ulpUp.simps) simp
  with step.IH show ?case
    by simp
qed

lemma fl_large:
  assumes "\<bar>x\<bar> < 2 ^ 53 * 2 ^ n" and "2 ^ 52 * 2 ^ n \<le> \<bar>x\<bar>" and "0 < n"
  shows "fl x = sgn x * (of_int (roundEven (\<bar>x\<bar> / 2 ^ n)) * 2 ^ n)"
proof -
  have "(2::real) ^ 53 = 2 ^ 52 * 2 ^ Suc 0"
    by simp
  also have "\<dots> \<le> 2 ^ 52 * 2 ^ n"
    using assms(3) by (intro mult_left_mono power_increasing) simp_all
  finally have "2 ^ 53 \<le> \<bar>x\<bar>"
    using assms(2) by simp
  moreover have "ulpUp \<bar>x\<bar> (2 ^ 0) = 2 ^ n"
    using assms by (intro ulpUp_eq) simp_all
  ultimately show ?thesis
    by (simp add: fl_def Let_def ulp_def)
qed

lemma subtract_example: "subtract 8640000000000000 (- 8639999999999999) = 17280000000000000"
  by (simp add: subtract_def fl_large [of _ 1] roundEven_def)

subsection \<open>The exports on an empty history, and the JSON export\<close>

lemma mapE_exportItem:
  "list_all (\<lambda>e. validTime (timestamp e)) hist \<Longrightarrow>
   mapE (exportItem h) hist =
     Inr (map (\<lambda>e. \<lparr>item_timestamp = timestamp e, item_time = isoString h (timestamp e),
                       dominantEmotion = emotion e, item_confidence = confidence e,
                       item_allEmotions = emotions e\<rparr>) hist)"
  by (induction hist)
     (simp_all add: exportItem_def toISOString_def timeClip_def validTime_def)

lemma jsonData_valid:
  assumes "list_all (\<lambda>e. validTime (timestamp e)) hist" and "validTime now"
  shows "jsonData h now hist =
     Inr \<lparr>exportDate = isoString h now, totalRecords = length hist,
          duration =
            (if hist = [] then 0 else subtract (timestamp (last hist)) (timestamp (hd hist))),
          data = map (\<lambda>e. \<lparr>item_timestamp = timestamp e,
                             item_time = isoString h (timestamp e),
                             dominantEmotion = emotion e, item_confidence = confidence e,
                             item_allEmotions = emotions e\<rparr>) hist\<rparr>"
  using assms(2)
  by (simp add: jsonData_def mapE_exportItem [OF assms(1)] toISOString_def timeClip_def
      validTime_def last_conv_nth hd_conv_nth)

lemma reconstruct_item:
  "reconstruct \<lparr>item_timestamp = timestamp e, item_time = s, dominantEmotion = emotion e,
                item_confidence = confidence e, item_allEmotions = emotions e\<rparr> = e"
  by (cases e) (simp add: reconstruct_def)

text \<open>
  C3, as the claim states it, fails: on the empty history neither handler produces
  anything. \<^verbatim>\<open>handleExportCSV\<close> returns before it builds the table, so there is no
  header-only result, and \<^verbatim>\<open>handleExportJSON\<close> returns before it builds the payload,
  so there is no \<^verbatim>\<open>totalRecords: 0, duration: 0\<close>.
\<close>

theorem empty_store_export_counterexample:
  "handleExportCSV plain_host 1700000000000 [] = None
   \<and> handleExportJSON plain_host 1700000000000 1700000000000 [] = Inr None"
  by (simp add: handleExportCSV_def handleExportJSON_def)

text \<open>
  C3, amended. On the empty history both export handlers return at once, for every host
  and clock: no file is created and no exception is raised. The expressions behind the
  guard would give a table of the header row alone and a payload with \<^verbatim>\<open>totalRecords\<close>
  0, \<^verbatim>\<open>duration\<close> 0 and no records, but the handlers do not reach them.
\<close>

theorem empty_store_exports_nothing:
  "handleExportCSV h now [] = None
   \<and> handleExportJSON h now now' [] = Inr None
   \<and> csvTable h [] = [headers]
   \<and> jsonData h now [] =
       (if validTime now
        then Inr \<lparr>exportDate = isoString h now, totalRecords = 0, duration = 0, data = []\<rparr>
        else Inl RangeError)"
  by (simp add: handleExportCSV_def handleExportJSON_def csvTable_def jsonData_def
      toISOString_def timeClip_def validTime_def)

text \<open>
  C5, as the claim states it, fails at the store with 0 samples: there is no payload to
  read the samples back from.
\<close>

theorem json_round_trip_empty_counterexample:
  "exportedPayload (handleExportJSON plain_host 1700000000000 1700000000001 []) = None
   \<and> map_option (\<lambda>p. map reconstruct (data p))
         (exportedPayload (handleExportJSON plain_host 1700000000000 1700000000001 []))
       \<noteq> Some []"
  by (simp add: handleExportJSON_def exportedPayload_def)

text \<open>
  C5, amended. For every history that is not empty (of 1 sample, of 1000 samples, of any
  length) whose timestamps are valid time values, exported at a valid time,
  \<^verbatim>\<open>handleExportJSON\<close> produces a payload; its \<^verbatim>\<open>data\<close> list has one record per sample,
  in order, and reading the records back gives the samples that were appended: the same
  timestamp, dominant emotion, confidence and scores.
\<close>

theorem json_round_trip:
  assumes "hist \<noteq> []" and "list_all (\<lambda>e. validTime (timestamp e)) hist" and "validTime now"
  shows "\<exists>p. exportedPayload (handleExportJSON h now now' hist) = Some p
             \<and> totalRecords p = length hist
             \<and> length (data p) = length hist
             \<and> map reconstruct (data p) = hist
             \<and> map item_timestamp (data p) = map timestamp hist
             \<and> map dominantEmotion (data p) = map emotion hist
             \<and> map item_confidence (data p) = map confidence hist
             \<and> map item_allEmotions (data p) = map emotions hist"
  using assms(1)
  by (simp add: handleExportJSON_def exportedPayload_def jsonData_valid [OF assms(2,3)]
      comp_def reconstruct_item)

theorem json_round_trip_witness:
  "[sample1, sample2] \<noteq> []
   \<and> list_all (\<lambda>e. validTime (timestamp e)) [sample1, sample2]
   \<and> validTime 1700000000000
   \<and> (\<exists>p. exportedPayload (handleExportJSON plain_host 1700000000000 1700000000001
               [sample1, sample2]) = Some p
          \<and> totalRecords p = 2
          \<and> map reconstruct (data p) = [sample1, sample2])
   \<and> (\<exists>p. exportedPayload (handleExportJSON plain_host 1700000000000 1700000000001
               (replicate 1000 sample1)) = Some p
          \<and> totalRecords p = 1000
          \<and> map reconstruct (data p) = replicate 1000 sample1)"
proof -
  have v: "list_all (\<lambda>e. validTime (timestamp e)) [sample1, sample2]"
    by (simp add: sample1_def sample2_def validTime_def)
  have v': "list_all (\<lambda>e. validTime (timestamp e)) (replicate 1000 sample1)"
    by (simp add: list_all_iff sample1_def validTime_def)
  have ne: "replicate 1000 sample1 \<noteq> []"
    by simp
  have n: "validTime 1700000000000"
    by (simp add: validTime_def)
  from json_round_trip [OF _ v n, of plain_host 1700000000001]
    json_round_trip [OF ne v' n, of plain_host 1700000000001] v n
  show ?thesis by auto
qed

text \<open>
  C6, as the claim states it, fails at the empty store, which has fewer than two samples:
  no payload is produced, so there is no duration 0.
\<close>

theorem export_duration_empty_counterexample:
  "length ([] :: entry list) < 2
   \<and> map_option duration (exportedPayload (handleExportJSON plain_host 1700000000000
         1700000000001 [])) = None
   \<and> map_option duration (exportedPayload (handleExportJSON plain_host 1700000000000
         1700000000001 [])) \<noteq> Some 0"
  by (simp add: handleExportJSON_def exportedPayload_def)

text \<open>
  C6, amended. For every history that is not empty, with valid timestamps and exported at
  a valid time, the payload's \<^verbatim>\<open>duration\<close> is the last sample's timestamp minus the
  first sample's as the double subtraction gives it: exactly the difference whenever
  that is at most \<open>2^53\<close> in magnitude, so whenever neither timestamp is negative, and
  the double nearest to it otherwise. It is 0 for a history of one sample, and 4500 for
  two samples with the timestamps 1000 and 5500.
\<close>

theorem export_duration:
  assumes "hist \<noteq> []" and "list_all (\<lambda>e. validTime (timestamp e)) hist" and "validTime now"
  shows "map_option duration (exportedPayload (handleExportJSON h now now' hist))
           = Some (subtract (timestamp (last hist)) (timestamp (hd hist)))
         \<and> (\<bar>timestamp (last hist) - timestamp (hd hist)\<bar> \<le> 2 ^ 53 \<longrightarrow>
              map_option duration (exportedPayload (handleExportJSON h now now' hist))
                = Some (timestamp (last hist) - timestamp (hd hist)))
         \<and> (0 \<le> timestamp (hd hist) \<and> 0 \<le> timestamp (last hist) \<longrightarrow>
              map_option duration (exportedPayload (handleExportJSON h now now' hist))
                = Some (timestamp (last hist) - timestamp (hd hist)))
         \<and> (length hist < 2 \<longrightarrow>
              map_option duration (exportedPayload (handleExportJSON h now now' hist)) = Some 0)
         \<and> map_option duration (exportedPayload (handleExportJSON h now now'
              [a\<lparr>timestamp := 1000\<rparr>, b\<lparr>timestamp := 5500\<rparr>])) = Some 4500"
proof -
  let ?d = "map_option duration (exportedPayload (handleExportJSON h now now' hist))"
  let ?first = "timestamp (hd hist)" and ?last = "timestamp (last hist)"
  have d: "?d = Some (subtract ?last ?first)"
    using assms(1)
    by (simp add: handleExportJSON_def exportedPayload_def jsonData_valid [OF assms(2,3)])
  have "hd hist \<in> set hist" and "last hist \<in> set hist"
    using assms(1) by simp_all
  with assms(2) have v: "\<bar>?first\<bar> \<le> 8640000000000000" "\<bar>?last\<bar> \<le> 8640000000000000"
    by (simp_all add: list_all_iff validTime_def)
  have exact: "\<bar>?last - ?first\<bar> \<le> 2 ^ 53 \<longrightarrow> ?d = Some (?last - ?first)"
    by (simp add: d subtract_exact)
  have nonneg: "0 \<le> ?first \<and> 0 \<le> ?last \<longrightarrow> ?d = Some (?last - ?first)"
  proof
    assume "0 \<le> ?first \<and> 0 \<le> ?last"
    with v have "\<bar>?last - ?first\<bar> \<le> 9007199254740992"
      by linarith
    then have "\<bar>?last - ?first\<bar> \<le> 2 ^ 53"
      by simp
    with exact show "?d = Some (?last - ?first)"
      by simp
  qed
  have one: "length hist < 2 \<longrightarrow> ?d = Some 0"
  proof
    assume "length hist < 2"
    with assms(1) have "last hist = hd hist"
      by (cases hist) auto
    then show "?d = Some 0"
      by (simp add: d subtract_exact)
  qed
  have two: "list_all (\<lambda>e. validTime (timestamp e)) [a\<lparr>timestamp := 1000\<rparr>, b\<lparr>timestamp := 5500\<rparr>]"
    by (simp add: validTime_def)
  have ex: "map_option duration (exportedPayload (handleExportJSON h now now'
              [a\<lparr>timestamp := 1000\<rparr>, b\<lparr>timestamp := 5500\<rparr>])) = Some 4500"
    by (simp add: handleExportJSON_def exportedPayload_def jsonData_valid [OF two assms(3)]
        subtract_exact)
  from d exact nonneg one ex show ?thesis
    by blast
qed

theorem export_duration_witness:
  "[sample1, sample2\<lparr>timestamp := 5500\<rparr>] \<noteq> []
   \<and> list_all (\<lambda>e. validTime (timestamp e)) [sample1, sample2\<lparr>timestamp := 5500\<rparr>]
   \<and> validTime 1700000000000
   \<and> map_option duration (exportedPayload (handleExportJSON plain_host 1700000000000
        1700000000001 [sample1, sample2\<lparr>timestamp := 5500\<rparr>])) = Some 4500
   \<and> length [sample1] < 2
   \<and> map_option duration (exportedPayload (handleExportJSON plain_host 1700000000000
        1700000000001 [sample1])) = Some 0
   \<and> map_option duration (exportedPayload (handleExportJSON plain_host 1700000000000
        1700000000001
        [sample1\<lparr>timestamp := - 8639999999999999\<rparr>, sample2\<lparr>timestamp := 8640000000000000\<rparr>]))
       = Some 17280000000000000"
proof -
  have x: "list_all (\<lambda>e. validTime (timestamp e))
      [sample1\<lparr>timestamp := - 8639999999999999\<rparr>, sample2\<lparr>timestamp := 8640000000000000\<rparr>]"
    by (simp add: validTime_def)
  have v: "list_all (\<lambda>e. validTime (timestamp e)) [sample1, sample2\<lparr>timestamp := 5500\<rparr>]"
    by (simp add: sample1_def sample2_def validTime_def)
  have v1: "list_all (\<lambda>e. validTime (timestamp e)) [sample1]"
    by (simp add: sample1_def validTime_def)
  have n: "validTime 1700000000000"
    by (simp add: validTime_def)
  from export_duration [OF _ v n, of plain_host 1700000000001]
       export_duration [OF _ v1 n, of plain_host 1700000000001]
       export_duration [OF _ x n, of plain_host 1700000000001] v n
  show ?thesis by (simp add: sample1_def subtract_example)
qed

subsection \<open>The emotion bars of \<^verbatim>\<open>CameraPanel\<close>\<close>

lemma insertBy_insort_key:
  "insertBy byValueDesc x ys = insort_key (\<lambda>e. - snd e) x ys"
  by (induction ys) (simp_all add: byValueDesc_def)

lemma sortBy_sort_key: "sortBy byValueDesc xs = sort_key (\<lambda>e. - snd e) xs"
proof -
  have "insertBy byValueDesc = insort_key (\<lambda>e. - snd e)"
    by (intro ext) (rule insertBy_insort_key)
  then show ?thesis
    by (simp add: sortBy_def sort_key_def)
qed

lemma sortBy_descending: "sorted_wrt (\<lambda>a b. snd b \<le> snd a) (sortBy byValueDesc xs)"
proof -
  have "sorted (map (\<lambda>e. - snd e) (sort_key (\<lambda>e. - snd e) xs))"
    by (rule sorted_sort_key)
  then show ?thesis
    by (simp add: sortBy_sort_key sorted_map)
qed

lemma sortBy_stable:
  "filter (\<lambda>e. snd e = v) (sortBy byValueDesc xs) = filter (\<lambda>e. snd e = v) xs"
  using sort_key_stable [of "\<lambda>e. - snd e" "- v" xs]
  by (simp add: sortBy_sort_key)

text \<open>
  C4, as the claim states it, fails: a tie is not broken by the canonical label order.
  For the scores \<^verbatim>\<open>{sad: 0.9, happy: 0.9, neutral: 0.1}\<close>, whose keys stand in this
  order, the two first bars are \<^verbatim>\<open>sad\<close> and \<^verbatim>\<open>happy\<close>, where the canonical order
  asks for \<^verbatim>\<open>happy\<close> before \<^verbatim>\<open>sad\<close>.
\<close>

theorem emotion_bars_tie_counterexample:
  "map fst (take 2 (emotionBars [(''sad'', 9 / 10), (''happy'', 9 / 10), (''neutral'', 1 / 10)]))
     = [''sad'', ''happy'']
   \<and> map fst (take 2 (emotionBars [(''sad'', 9 / 10), (''happy'', 9 / 10), (''neutral'', 1 / 10)]))
     \<noteq> [''happy'', ''sad'']"
  by (simp add: emotionBars_def sortBy_def byValueDesc_def)

text \<open>
  C4, amended. The emotion bars are the first five entries (all of them, when the
  mapping has fewer than five) of the mapping's entries sorted by score, highest first:
  the sorted list holds the same entries as the mapping, each as often, and is descending
  by score, so the bars are the entries with the highest scores. The number of bars is
  fixed in the code, not a parameter. The sort is stable: entries with equal scores keep
  the order of the mapping's own keys, which is the canonical label order only when the
  mapping lists its keys so. For \<^verbatim>\<open>{happy: 0.9, sad: 0.9, neutral: 0.1}\<close>, with the keys
  in this order, the two first bars are \<^verbatim>\<open>happy\<close> and \<^verbatim>\<open>sad\<close>.
\<close>

theorem emotion_bars_ranking:
  "emotionBars obj = take 5 (sortBy byValueDesc obj)
   \<and> mset (sortBy byValueDesc obj) = mset obj
   \<and> sorted_wrt (\<lambda>a b. snd b \<le> snd a) (sortBy byValueDesc obj)
   \<and> sorted_wrt (\<lambda>a b. snd b \<le> snd a) (emotionBars obj)
   \<and> length (emotionBars obj) = min 5 (length obj)
   \<and> (\<forall>v. filter (\<lambda>e. snd e = v) (sortBy byValueDesc obj) = filter (\<lambda>e. snd e = v) obj)
   \<and> map fst (take 2 (emotionBars [(''happy'', 9 / 10), (''sad'', 9 / 10), (''neutral'', 1 / 10)]))
       = [''happy'', ''sad'']"
proof -
  have len: "length (sortBy byValueDesc obj) = length obj"
    by (simp add: sortBy_sort_key)
  have ex: "map fst (take 2 (emotionBars [(''happy'', 9 / 10), (''sad'', 9 / 10), (''neutral'', 1 / 10)]))
       = [''happy'', ''sad'']"
    by (simp add: emotionBars_def sortBy_def byValueDesc_def)
  show ?thesis
    using sortBy_descending [of obj] sortBy_stable [of _ obj] ex
    by (simp add: emotionBars_def len sorted_wrt_take min.commute) (simp add: sortBy_sort_key)
qed

subsection \<open>A failed detection\<close>

text \<open>
  C9, as the claim states it, fails: after a request that failed with the message
  \<^verbatim>\<open>Network Error\<close>, the panel still shows \<^verbatim>\<open>happy\<close> with its confidence and scores,
  and the parent's current emotion is still \<^verbatim>\<open>happy\<close>. The default result did not
  reach the state.
\<close>

theorem failed_detection_counterexample:
  "captureAndDetect (Some handleEmotionDetected) True (Some ''data:image/jpeg;base64,AAAA'')
     (Rejected ''Network Error'')
     (\<lparr>cam_emotion = ''happy'', cam_confidence = 9 / 10, allEmotions = [(''happy'', 9 / 10)],
       isDetecting = False\<rparr>,
      initial_state\<lparr>currentEmotion := ''happy''\<rparr>)
   = (\<lparr>cam_emotion = ''happy'', cam_confidence = 9 / 10, allEmotions = [(''happy'', 9 / 10)],
       isDetecting = False\<rparr>,
      initial_state\<lparr>currentEmotion := ''happy''\<rparr>)"
  by (simp add: captureAndDetect_def truthy_def)

text \<open>
  C9, amended. For every failed request \<^verbatim>\<open>detectEmotion\<close> returns the default result
  with the emotion \<^verbatim>\<open>neutral\<close>, the confidence 0, the error's message and no scores
  mapping at all. \<^verbatim>\<open>captureAndDetect\<close> drops a result whose error message is not
  empty: the panel's emotion, confidence and scores and the parent's current emotion
  stay as they were. Only a failure with an empty message is applied, as \<^verbatim>\<open>neutral\<close>,
  0 and an empty scores mapping, and passed to the parent.
\<close>

theorem failed_detection_is_dropped:
  "detectEmotion (Rejected msg)
     = Some \<lparr>res_emotion = ''neutral'', res_confidence = 0, all_emotions = None,
             res_error = Some msg\<rparr>
   \<and> captureAndDetect cb webcam img (Rejected msg) (c, p) =
       (if webcam \<and> \<not> isDetecting c \<and> truthy img \<and> msg = []
        then (c\<lparr>cam_emotion := ''neutral'', cam_confidence := 0, allEmotions := []\<rparr>,
              case cb of None \<Rightarrow> p | Some f \<Rightarrow> f ''neutral'' p)
        else (c, p))"
  by (cases c) (auto simp add: captureAndDetect_def truthy_def Let_def split: option.splits)

subsection \<open>The CSV export\<close>







text \<open>
  C8. The chart reads a label that a sample's scores lack as 0, but the row export does
  not: on the first sample of the specification's scenario, which has no \<^verbatim>\<open>angry\<close>
  score, the chart's percentage is 0 and the cell of the CSV row is \<^verbatim>\<open>NaN%\<close>.
\<close>

theorem csv_missing_label_prints_NaN:
  "getProp (emotions sample1) ''angry'' = None
   \<and> csvRow plain_host sample1 ! 6 = Str ''NaN%''
   \<and> getProp (percentages (chartPoint plain_host sample1 0)) ''angry'' = Some (Some 0)"
  by (simp add: csvRow_def percent_def chartPoint_def getProp_def or0_def sample1_def
      rounded_def overflows_def fl_zero)



lemma fl_tenth: "fl (1 / 10) = 3602879701896397 / 36028797018963968"
  by (subst fl_small [of _ 56]) (simp_all add: roundEven_def Let_def)

lemma fl_eight_tenths: "fl (4 / 5) = 3602879701896397 / 4503599627370496"
  by (subst fl_small [of _ 53]) (simp_all add: roundEven_def Let_def)

lemma fl_six_tenths: "fl (3 / 5) = 5404319552844595 / 9007199254740992"
  by (subst fl_small [of _ 53]) (simp_all add: roundEven_def Let_def)

lemma fl_tenth_percent: "fl (fl (1 / 10) * 100) = 10"
  by (simp only: fl_tenth, subst fl_small [of _ 49]) (simp_all add: roundEven_def Let_def)

lemma fl_eight_tenths_percent: "fl (fl (4 / 5) * 100) = 80"
  by (simp only: fl_eight_tenths, subst fl_small [of _ 46]) (simp_all add: roundEven_def Let_def)

lemma fl_six_tenths_percent: "fl (fl (3 / 5) * 100) = 60"
  by (simp only: fl_six_tenths, subst fl_small [of _ 47]) (simp_all add: roundEven_def Let_def)




subsection \<open>The averages of \<^verbatim>\<open>EmotionChart\<close>\<close>

lemma fl_numeral: "(numeral n :: int) \<le> 2 ^ 53 \<Longrightarrow> fl (numeral n) = numeral n"
  using fl_int [of "numeral n"] by simp

lemma rounded_small: "\<bar>x\<bar> \<le> 10 ^ 20 \<Longrightarrow> rounded x = Some (fl x)"
proof -
  assume "\<bar>x\<bar> \<le> 10 ^ 20"
  then have "\<bar>x\<bar> < 2 ^ 1024 - 2 ^ 970"
    by simp
  then show ?thesis
    by (simp add: rounded_def overflows_def)
qed

lemma elements_chartData:
  "map (\<lambda>p. element p k) (chartData h hist) = map (\<lambda>e. element (chartPoint h e 0) k) hist"
proof -
  have "map (\<lambda>p. element p k) (chartData h hist)
        = map ((\<lambda>e. element (chartPoint h e 0) k) \<circ> fst) (zip hist [0..<length hist])"
    by (simp add: chartData_def chartPoint_def element_def case_prod_unfold comp_def)
  also have "\<dots> = map (\<lambda>e. element (chartPoint h e 0) k) (map fst (zip hist [0..<length hist]))"
    by (simp only: map_map)
  also have "\<dots> = map (\<lambda>e. element (chartPoint h e 0) k) hist"
    by (simp only: map_fst_zip length_upt diff_zero)
  finally show ?thesis .
qed

lemma length_chartData: "length (chartData h hist) = length hist"
  by (simp add: chartData_def)

lemma element_label:
  "k \<in> set labels \<Longrightarrow> element (chartPoint h e i) k = rounded (score k e * 100)"
  by (auto simp add: labels_def chartPoint_def element_def getProp_def score_def)

lemma fold_elements:
  assumes "k \<in> set labels"
  shows "foldl (\<lambda>acc curr. add acc (element curr k)) (Some 0) (chartData h hist)
         = foldl (\<lambda>acc e. add acc (rounded (score k e * 100))) (Some 0) hist"
proof -
  have "foldl (\<lambda>acc curr. add acc (element curr k)) (Some 0) (chartData h hist)
        = foldl add (Some 0) (map (\<lambda>p. element p k) (chartData h hist))"
    by (simp add: foldl_map)
  also have "\<dots> = foldl add (Some 0) (map (\<lambda>e. rounded (score k e * 100)) hist)"
    by (simp add: elements_chartData element_label [OF assms])
  also have "\<dots> = foldl (\<lambda>acc e. add acc (rounded (score k e * 100))) (Some 0) hist"
    by (simp add: foldl_map)
  finally show ?thesis .
qed

lemma product_error:
  assumes "0 \<le> s" and "s \<le> 1"
  shows "\<exists>p. rounded (s * 100) = Some p \<and> 0 \<le> p \<and> p \<le> 201 / 2
             \<and> \<bar>p - s * 100\<bar> \<le> 101 / 2 ^ 53"
proof -
  define x where "x = s * 100"
  have x: "0 \<le> x" "x \<le> 100"
    using assms by (simp_all add: x_def)
  then have r: "rounded x = Some (fl x)"
    by (intro rounded_small) simp
  have "\<bar>fl x - x\<bar> \<le> (\<bar>x\<bar> + 1) / 2 ^ 53"
    by (rule fl_error)
  also have "\<dots> \<le> 101 / 2 ^ 53"
    using x by (intro divide_right_mono) simp_all
  finally have e: "\<bar>fl x - x\<bar> \<le> 101 / 2 ^ 53" .
  then have "fl x \<le> x + 101 / 2 ^ 53"
    by linarith
  with x(2) have "fl x \<le> 201 / 2"
    by simp
  with r e fl_nonneg [OF x(1)] show ?thesis
    by (simp add: x_def)
qed

lemma sum_error:
  assumes "0 \<le> S" and "S \<le> 101 * real m" and "0 \<le> p" and "p \<le> 201 / 2" and "m < 50000"
  shows "\<exists>S'. add (Some S) (Some p) = Some S' \<and> 0 \<le> S' \<and> S' \<le> 101 * real (Suc m)
              \<and> \<bar>S' - (S + p)\<bar> \<le> 5050001 / 2 ^ 53"
proof -
  define y where "y = S + p"
  from assms(5) have "real m \<le> 49999"
    by simp
  with assms(2,4) have "y \<le> 101 * 49999 + 201 / 2"
    by (simp add: y_def)
  then have y: "0 \<le> y" "y \<le> 5050000"
    using assms(1,3) by (simp_all add: y_def)
  then have r: "rounded y = Some (fl y)"
    by (intro rounded_small) simp
  have "\<bar>fl y - y\<bar> \<le> (\<bar>y\<bar> + 1) / 2 ^ 53"
    by (rule fl_error)
  also have "\<dots> \<le> 5050001 / 2 ^ 53"
    using y by (intro divide_right_mono) simp_all
  finally have e: "\<bar>fl y - y\<bar> \<le> 5050001 / 2 ^ 53" .
  then have "fl y \<le> y + 5050001 / 2 ^ 53"
    by linarith
  then have "fl y \<le> y + 1 / 2"
    by simp
  with assms(2,4) have "fl y \<le> 101 * real (Suc m)"
    by (simp add: y_def)
  with r e fl_nonneg [OF y(1)] show ?thesis
    by (simp add: add_def y_def)
qed

lemma fold_error:
  assumes "list_all (\<lambda>e. 0 \<le> score k e \<and> score k e \<le> 1) es"
    and "0 \<le> S" and "S \<le> 101 * real m" and "m + length es \<le> 50000"
    and "\<bar>S - T\<bar> \<le> real m * (5050102 / 2 ^ 53)"
  shows "\<exists>S'. foldl (\<lambda>acc e. add acc (rounded (score k e * 100))) (Some S) es = Some S'
              \<and> 0 \<le> S' \<and> S' \<le> 101 * real (m + length es)
              \<and> \<bar>S' - (T + sum_list (map (\<lambda>e. score k e * 100) es))\<bar>
                  \<le> real (m + length es) * (5050102 / 2 ^ 53)"
  using assms
proof (induction es arbitrary: S T m)
  case Nil
  then show ?case
    by simp
next
  case (Cons e es)
  from Cons.prems(1) have s: "0 \<le> score k e" "score k e \<le> 1"
    and rest: "list_all (\<lambda>e. 0 \<le> score k e \<and> score k e \<le> 1) es"
    by simp_all
  from product_error [OF s] obtain p where
    p: "rounded (score k e * 100) = Some p" "0 \<le> p" "p \<le> 201 / 2"
      "\<bar>p - score k e * 100\<bar> \<le> 101 / 2 ^ 53"
    by blast
  from Cons.prems(4) have m: "m < 50000"
    by simp
  from sum_error [OF Cons.prems(2,3) p(2,3) m] obtain S1 where
    S1: "add (Some S) (Some p) = Some S1" "0 \<le> S1" "S1 \<le> 101 * real (Suc m)"
      "\<bar>S1 - (S + p)\<bar> \<le> 5050001 / 2 ^ 53"
    by blast
  have "\<bar>S1 - (T + score k e * 100)\<bar>
        \<le> \<bar>S1 - (S + p)\<bar> + \<bar>S - T\<bar> + \<bar>p - score k e * 100\<bar>"
    by linarith
  also have "\<dots> \<le> 5050001 / 2 ^ 53 + real m * (5050102 / 2 ^ 53) + 101 / 2 ^ 53"
    using S1(4) Cons.prems(5) p(4) by linarith
  also have "\<dots> = real (Suc m) * (5050102 / 2 ^ 53)"
    by (simp add: algebra_simps)
  finally have err: "\<bar>S1 - (T + score k e * 100)\<bar> \<le> real (Suc m) * (5050102 / 2 ^ 53)" .
  from Cons.prems(4) have len: "Suc m + length es \<le> 50000"
    by simp
  from Cons.IH [OF rest S1(2,3) len err] obtain S' where
    "foldl (\<lambda>acc e. add acc (rounded (score k e * 100))) (Some S1) es = Some S'"
    "0 \<le> S'" "S' \<le> 101 * real (Suc m + length es)"
    "\<bar>S' - (T + score k e * 100 + sum_list (map (\<lambda>e. score k e * 100) es))\<bar>
       \<le> real (Suc m + length es) * (5050102 / 2 ^ 53)"
    by blast
  then show ?case
    by (simp add: p(1) S1(1) add.assoc)
qed

lemma avgValue_error:
  assumes "k \<in> set labels" and "hist \<noteq> []" and "length hist \<le> 50000"
    and "list_all (\<lambda>e. 0 \<le> score k e \<and> score k e \<le> 1) hist"
  shows "\<exists>a. avgValue k (chartData h hist) = Some a
             \<and> \<bar>a - 100 * mean (map (score k) hist)\<bar> \<le> 1 / 10 ^ 9"
proof -
  define n where "n = real (length hist)"
  have n: "1 \<le> n" "n \<le> 50000"
    using assms(2,3) by (simp_all add: n_def Suc_le_eq)
  have "\<bar>0 - 0\<bar> \<le> real 0 * (5050102 / 2 ^ 53)" and "(0::real) \<le> 101 * real 0"
    by simp_all
  with fold_error [OF assms(4), of 0 0 0] assms(3) obtain S where
    S: "foldl (\<lambda>acc e. add acc (rounded (score k e * 100))) (Some 0) hist = Some S"
      "0 \<le> S" "S \<le> 101 * n"
      "\<bar>S - sum_list (map (\<lambda>e. score k e * 100) hist)\<bar> \<le> n * (5050102 / 2 ^ 53)"
    by (auto simp add: n_def)
  have sum: "sum_list (map (\<lambda>e. score k e * 100) hist) = 100 * sum_list (map (score k) hist)"
    by (induction hist) (simp_all add: algebra_simps)
  define q where "q = S / n"
  define t where "t = 100 * mean (map (score k) hist)"
  have t: "t * n = 100 * sum_list (map (score k) hist)"
    using n(1) by (simp add: t_def mean_def n_def)
  have q: "0 \<le> q" "q \<le> 101"
    using S(2,3) n(1) by (simp_all add: q_def pos_divide_le_eq mult.commute)
  have qn: "q * n = S"
    using n(1) by (simp add: q_def)
  have "\<bar>q - t\<bar> * n = \<bar>(q - t) * n\<bar>"
    using n(1) by (simp add: abs_mult)
  also have "\<dots> = \<bar>S - 100 * sum_list (map (score k) hist)\<bar>"
    by (simp only: left_diff_distrib qn t)
  finally have "\<bar>q - t\<bar> * n \<le> (5050102 / 2 ^ 53) * n"
    using S(4) by (simp add: sum mult.commute)
  then have qt: "\<bar>q - t\<bar> \<le> 5050102 / 2 ^ 53"
    using n(1) by simp
  have r: "rounded q = Some (fl q)"
    using q by (intro rounded_small) simp
  have "\<bar>fl q - q\<bar> \<le> (\<bar>q\<bar> + 1) / 2 ^ 53"
    by (rule fl_error)
  also have "\<dots> \<le> 102 / 2 ^ 53"
    using q by (intro divide_right_mono) simp_all
  finally have "\<bar>fl q - t\<bar> \<le> 102 / 2 ^ 53 + 5050102 / 2 ^ 53"
    using qt by linarith
  also have "\<dots> \<le> 1 / 10 ^ 9"
    by simp
  finally have "\<bar>fl q - t\<bar> \<le> 1 / 10 ^ 9" .
  moreover have "avgValue k (chartData h hist) = Some (fl q)"
    using assms(2) r
    by (simp add: avgValue_def fold_elements [OF assms(1)] S(1) length_chartData q_def n_def)
  ultimately show ?thesis
    by (simp add: t_def)
qed

lemma or0_Some: "or0 (Some x) = x"
  by (simp add: or0_def)

lemma or0_None: "or0 None = 0"
  by (simp add: or0_def)

lemma rounded_zero: "rounded 0 = Some 0"
  by (simp add: rounded_def overflows_def fl_zero)

lemma rounded_numeral:
  assumes "(numeral n :: int) \<le> 2 ^ 53"
  shows "rounded (numeral n) = Some (numeral n)"
proof -
  from assms have "real_of_int (numeral n) \<le> real_of_int (2 ^ 53)"
    by (simp only: of_int_le_iff)
  then have "(numeral n :: real) \<le> 2 ^ 53"
    by simp
  moreover have "(2 ^ 53 :: real) \<le> 10 ^ 20"
    by simp
  ultimately have "(numeral n :: real) \<le> 10 ^ 20"
    by linarith
  then have "\<bar>numeral n :: real\<bar> \<le> 10 ^ 20"
    by simp
  then show ?thesis
    by (simp add: rounded_small fl_numeral [OF assms])
qed

lemma rounded_percent:
  "rounded (fl (4 / 5) * 100) = Some 80"
  "rounded (fl (1 / 10) * 100) = Some 10"
  "rounded (fl (3 / 5) * 100) = Some 60"
proof -
  have "\<bar>fl (4 / 5) * 100\<bar> \<le> 10 ^ 20" "\<bar>fl (1 / 10) * 100\<bar> \<le> 10 ^ 20"
    "\<bar>fl (3 / 5) * 100\<bar> \<le> 10 ^ 20"
    by (simp_all add: fl_eight_tenths fl_tenth fl_six_tenths)
  then show "rounded (fl (4 / 5) * 100) = Some 80" "rounded (fl (1 / 10) * 100) = Some 10"
    "rounded (fl (3 / 5) * 100) = Some 60"
    by (simp_all add: rounded_small fl_eight_tenths_percent fl_tenth_percent
        fl_six_tenths_percent)
qed

text \<open>
  C1, as the claim states it, fails on the specification's own scenario: for the two
  samples with the \<^verbatim>\<open>happy\<close> scores 0.8 and 0.1 the legend's average of \<^verbatim>\<open>happy\<close> is
  45, a percentage, where the mean of the scores is 0.45; the legend has four labels, not
  seven; and for the empty history it is not rendered, so there is no zero-filled result.
\<close>

theorem legend_average_counterexample:
  "legend plain_host [sample1, sample2]
     = Some [(''happy'', Some 45), (''sad'', Some 35), (''angry'', Some 0), (''surprise'', Some 0)]
   \<and> legend plain_host [] = None"
  by (simp add: legend_def emotionColors_def avgValue_def chartData_def chartPoint_def
      element_def add_def getProp_def or0_Some or0_None sample1_def sample2_def upt_rec
      rounded_percent rounded_numeral rounded_zero)

text \<open>
  C1, amended. For every history of at most 50000 samples that is not empty and whose
  scores of \<^verbatim>\<open>happy\<close>, \<^verbatim>\<open>sad\<close>, \<^verbatim>\<open>angry\<close> and \<^verbatim>\<open>surprise\<close> lie between 0 and 1, a
  score that is absent counting as 0, the legend of the chart gives for each of these
  four labels a finite number, and this number is within \<open>10^-9\<close> of one hundred times
  the arithmetic mean of that label's score over all samples. The number is computed in
  double precision: every product by 100, every partial sum and the final quotient is
  rounded, and the bound accounts for all these roundings. No average is computed for
  \<^verbatim>\<open>fear\<close>, \<^verbatim>\<open>disgust\<close> and \<^verbatim>\<open>neutral\<close>. For the empty history the legend is not
  rendered: nothing is computed and nothing is divided by zero.
\<close>

theorem legend_averages:
  assumes "hist \<noteq> []" and "length hist \<le> 50000"
    and "list_all (\<lambda>e. list_all (\<lambda>k. 0 \<le> score k e \<and> score k e \<le> 1)
                      [''happy'', ''sad'', ''angry'', ''surprise'']) hist"
  shows "(\<exists>a1 a2 a3 a4.
            legend h hist = Some [(''happy'', Some a1), (''sad'', Some a2),
                                  (''angry'', Some a3), (''surprise'', Some a4)]
            \<and> \<bar>a1 - 100 * mean (map (score ''happy'') hist)\<bar> \<le> 1 / 10 ^ 9
            \<and> \<bar>a2 - 100 * mean (map (score ''sad'') hist)\<bar> \<le> 1 / 10 ^ 9
            \<and> \<bar>a3 - 100 * mean (map (score ''angry'') hist)\<bar> \<le> 1 / 10 ^ 9
            \<and> \<bar>a4 - 100 * mean (map (score ''surprise'') hist)\<bar> \<le> 1 / 10 ^ 9)
         \<and> legend h [] = None"
proof -
  have avg: "\<exists>a. avgValue k (chartData h hist) = Some a
                 \<and> \<bar>a - 100 * mean (map (score k) hist)\<bar> \<le> 1 / 10 ^ 9"
    if "k \<in> set [''happy'', ''sad'', ''angry'', ''surprise'']" for k
  proof -
    from that have l: "k \<in> set labels"
      by (auto simp add: labels_def)
    from assms(3) that have "list_all (\<lambda>e. 0 \<le> score k e \<and> score k e \<le> 1) hist"
      by (auto simp add: list_all_iff)
    from avgValue_error [OF l assms(1,2) this] show ?thesis .
  qed
  from avg [of "''happy''"] obtain a1 where
    a1: "avgValue ''happy'' (chartData h hist) = Some a1"
      "\<bar>a1 - 100 * mean (map (score ''happy'') hist)\<bar> \<le> 1 / 10 ^ 9"
    by auto
  from avg [of "''sad''"] obtain a2 where
    a2: "avgValue ''sad'' (chartData h hist) = Some a2"
      "\<bar>a2 - 100 * mean (map (score ''sad'') hist)\<bar> \<le> 1 / 10 ^ 9"
    by auto
  from avg [of "''angry''"] obtain a3 where
    a3: "avgValue ''angry'' (chartData h hist) = Some a3"
      "\<bar>a3 - 100 * mean (map (score ''angry'') hist)\<bar> \<le> 1 / 10 ^ 9"
    by auto
  from avg [of "''surprise''"] obtain a4 where
    a4: "avgValue ''surprise'' (chartData h hist) = Some a4"
      "\<bar>a4 - 100 * mean (map (score ''surprise'') hist)\<bar> \<le> 1 / 10 ^ 9"
    by auto
  have "legend h hist = Some [(''happy'', Some a1), (''sad'', Some a2),
                               (''angry'', Some a3), (''surprise'', Some a4)]"
    using assms(1) by (simp add: legend_def emotionColors_def a1(1) a2(1) a3(1) a4(1))
  moreover have "legend h [] = None"
    by (simp add: legend_def)
  ultimately show ?thesis
    using a1(2) a2(2) a3(2) a4(2) by blast
qed

theorem legend_averages_witness:
  "[sample1, sample2] \<noteq> [] \<and> length [sample1, sample2] \<le> 50000
   \<and> list_all (\<lambda>e. list_all (\<lambda>k. 0 \<le> score k e \<and> score k e \<le> 1)
                     [''happy'', ''sad'', ''angry'', ''surprise'']) [sample1, sample2]
   \<and> (\<exists>a1 a2 a3 a4.
         legend plain_host [sample1, sample2]
           = Some [(''happy'', Some a1), (''sad'', Some a2),
                   (''angry'', Some a3), (''surprise'', Some a4)]
         \<and> \<bar>a1 - 100 * mean (map (score ''happy'') [sample1, sample2])\<bar> \<le> 1 / 10 ^ 9
         \<and> \<bar>a2 - 100 * mean (map (score ''sad'') [sample1, sample2])\<bar> \<le> 1 / 10 ^ 9
         \<and> \<bar>a3 - 100 * mean (map (score ''angry'') [sample1, sample2])\<bar> \<le> 1 / 10 ^ 9
         \<and> \<bar>a4 - 100 * mean (map (score ''surprise'') [sample1, sample2])\<bar> \<le> 1 / 10 ^ 9)"
proof -
  have s: "list_all (\<lambda>e. list_all (\<lambda>k. 0 \<le> score k e \<and> score k e \<le> 1)
                     [''happy'', ''sad'', ''angry'', ''surprise'']) [sample1, sample2]"
    by (simp add: score_def sample1_def sample2_def getProp_def or0_Some or0_None
        fl_eight_tenths fl_tenth fl_six_tenths)
  have n: "[sample1, sample2] \<noteq> []" "length [sample1, sample2] \<le> 50000"
    by simp_all
  from legend_averages [OF n s, of plain_host] s n show ?thesis
    by blast
qed

end
